theory Spec2Isabelle
  imports Complex_Main "HOL-Library.AList" "HOL-Library.Sublist" "HOL-Library.Word"
begin

unbundle bit_operations_syntax

section \<open>Python values and the operators the library applies to them\<close>

text \<open>
  Every value the library handles comes out of \<^verbatim>\<open>json.loads\<close> or is a literal of the
  source. A JSON object is an association list read by its first binding for a key
  (\<open>map_of\<close>), which is how a Python dict with unique keys behaves. Numbers are Python's
  unbounded integers; JSON numbers with a fraction are outside the model. A text is a list
  of characters, and letters and digits are those of ASCII.
\<close>

datatype json =
    JNull
  | JBool bool
  | JInt int
  | JStr string
  | JList "json list"
  | JObj "(string \<times> json) list"

text \<open>
  The three payloads \<^verbatim>\<open>SmartDeviceException\<close> is raised with in \<^verbatim>\<open>_query_helper\<close>:
  the fixed text, the missing target with the whole response, and target, command and the
  namespace object of a device-reported error.
\<close>

datatype sde_message =
    CommunicationError
  | NoRequired string json
  | ErrorOn string string json

datatype exn =
    SmartDeviceException sde_message
  | KeyError
  | TypeError
  | AttributeError
  | ValueError
  | UnboundLocalError
  | NotImplementedError
  | SocketError

definition ebind :: "exn + 'a \<Rightarrow> ('a \<Rightarrow> exn + 'b) \<Rightarrow> exn + 'b" where
  "ebind m f = (case m of Inl e \<Rightarrow> Inl e | Inr x \<Rightarrow> f x)"

text \<open>Truth value of a JSON value, as \<^verbatim>\<open>bool(x)\<close>, \<^verbatim>\<open>if x\<close> and \<^verbatim>\<open>not x\<close> compute it.\<close>

fun py_truthy :: "json \<Rightarrow> bool" where
  "py_truthy JNull = False"
| "py_truthy (JBool b) = b"
| "py_truthy (JInt n) = (n \<noteq> 0)"
| "py_truthy (JStr s) = (s \<noteq> [])"
| "py_truthy (JList xs) = (xs \<noteq> [])"
| "py_truthy (JObj kvs) = (kvs \<noteq> [])"

text \<open>\<^verbatim>\<open>x != 0\<close>: a bool is an int in Python, every other non-number differs from 0.\<close>

fun py_ne_zero :: "json \<Rightarrow> bool" where
  "py_ne_zero (JInt n) = (n \<noteq> 0)"
| "py_ne_zero (JBool b) = b"
| "py_ne_zero v = True"

text \<open>\<^verbatim>\<open>needle in hay\<close> for a text needle: substring of a text.\<close>

fun str_contains :: "string \<Rightarrow> string \<Rightarrow> bool" where
  "str_contains pat [] = (pat = [])"
| "str_contains pat (c # cs) = (prefix pat (c # cs) \<or> str_contains pat cs)"

text \<open>
  \<^verbatim>\<open>key in x\<close> for a text key: a key of a dict, an element of a list, a substring of a
  text; \<^verbatim>\<open>TypeError\<close> on anything that is not a container.
\<close>

fun py_in :: "string \<Rightarrow> json \<Rightarrow> exn + bool" where
  "py_in k (JObj kvs) = Inr (map_of kvs k \<noteq> None)"
| "py_in k (JList xs) = Inr (JStr k \<in> set xs)"
| "py_in k (JStr s) = Inr (str_contains k s)"
| "py_in k v = Inl TypeError"

text \<open>\<^verbatim>\<open>x[key]\<close> for a text key: only a dict can be subscripted by a text.\<close>

fun py_getitem :: "json \<Rightarrow> string \<Rightarrow> exn + json" where
  "py_getitem (JObj kvs) k = (case map_of kvs k of None \<Rightarrow> Inl KeyError | Some v \<Rightarrow> Inr v)"
| "py_getitem v k = Inl TypeError"

text \<open>\<^verbatim>\<open>del x[key]\<close> for a text key, returning the object after the deletion.\<close>

fun py_delitem :: "json \<Rightarrow> string \<Rightarrow> exn + json" where
  "py_delitem (JObj kvs) k =
     (if map_of kvs k = None then Inl KeyError else Inr (JObj (AList.delete k kvs)))"
| "py_delitem v k = Inl TypeError"

section \<open>The query helper\<close>

text \<open>
  The part of \<^verbatim>\<open>SmartDevice._query_helper\<close> after \<^verbatim>\<open>protocol.query\<close> has returned
  \<open>response\<close> (smartdevice.py, lines 83 to 95).
\<close>

definition unwrap_response :: "string \<Rightarrow> string \<Rightarrow> json \<Rightarrow> exn + json" where
  "unwrap_response target cmd response =
     ebind (py_in target response) (\<lambda>present.
       if \<not> present then Inl (SmartDeviceException (NoRequired target response))
       else ebind (py_getitem response target) (\<lambda>result.
         ebind (ebind (py_in ''err_code'' result) (\<lambda>has_code.
                  if has_code
                  then ebind (py_getitem result ''err_code'') (\<lambda>c. Inr (py_ne_zero c))
                  else Inr False)) (\<lambda>failed.
           if failed then Inl (SmartDeviceException (ErrorOn target cmd result))
           else ebind (py_getitem result cmd) (\<lambda>inner. py_delitem inner ''err_code''))))"

section \<open>The device and its transport\<close>

text \<open>
  \<^verbatim>\<open>protocol.query\<close> lives in protocol.py, which is not among the sources: it is the
  environment. The \<open>inbox\<close> holds what its successive calls give back, in order
  (\<open>None\<close>: the call raised; an exhausted inbox: the call raised, too), the \<open>outbox\<close>
  records host and request of every call. \<open>now_year\<close> and \<open>now_month\<close> are what
  \<^verbatim>\<open>datetime.datetime.now()\<close> reads.
\<close>

record world =
  inbox :: "json option list"
  outbox :: "(string \<times> json) list"
  now_year :: int
  now_month :: int

type_synonym 'a io = "world \<Rightarrow> (exn + 'a) \<times> world"

definition io_return :: "'a \<Rightarrow> 'a io" where
  "io_return x = (\<lambda>w. (Inr x, w))"

definition io_raise :: "exn \<Rightarrow> 'a io" where
  "io_raise e = (\<lambda>w. (Inl e, w))"

definition io_bind :: "'a io \<Rightarrow> ('a \<Rightarrow> 'b io) \<Rightarrow> 'b io" where
  "io_bind m f = (\<lambda>w. case m w of (Inl e, w') \<Rightarrow> (Inl e, w') | (Inr x, w') \<Rightarrow> f x w')"

definition io_lift :: "exn + 'a \<Rightarrow> 'a io" where
  "io_lift r = (\<lambda>w. (r, w))"

definition protocol_query :: "string \<Rightarrow> json \<Rightarrow> json option io" where
  "protocol_query host request =
     (\<lambda>w. case inbox w of
        [] \<Rightarrow> (Inr None, w\<lparr>outbox := outbox w @ [(host, request)]\<rparr>)
      | r # rs \<Rightarrow> (Inr r, w\<lparr>inbox := rs, outbox := outbox w @ [(host, request)]\<rparr>))"

datatype dev_class = SmartDevice | SmartPlug | SmartBulb

record device =
  cls :: dev_class
  ip_address :: string
  emeter_type :: string
  emeter_units :: bool

text \<open>
  The constructors. \<^verbatim>\<open>socket.inet_pton(socket.AF_INET, ip_address)\<close> is the C library's;
  \<open>inet_pton\<close> says which texts it accepts, and it raises \<^verbatim>\<open>socket.error\<close> on the others.
  A constructor takes no \<open>world\<close>: it calls nothing of the transport.
\<close>

definition SmartDevice_init :: "(string \<Rightarrow> bool) \<Rightarrow> string \<Rightarrow> exn + device" where
  "SmartDevice_init inet_pton ip =
     (if \<not> inet_pton ip then Inl SocketError
      else Inr \<lparr>cls = SmartDevice, ip_address = ip, emeter_type = ''emeter'',
                emeter_units = False\<rparr>)"

definition SmartPlug_init :: "(string \<Rightarrow> bool) \<Rightarrow> string \<Rightarrow> exn + device" where
  "SmartPlug_init inet_pton ip =
     ebind (SmartDevice_init inet_pton ip) (\<lambda>self.
       Inr (self\<lparr>cls := SmartPlug, emeter_type := ''emeter'', emeter_units := False\<rparr>))"

definition SmartBulb_init :: "(string \<Rightarrow> bool) \<Rightarrow> string \<Rightarrow> exn + device" where
  "SmartBulb_init inet_pton ip =
     ebind (SmartDevice_init inet_pton ip) (\<lambda>self.
       Inr (self\<lparr>cls := SmartBulb, emeter_type := ''smartlife.iot.common.emeter'',
                  emeter_units := True\<rparr>))"

text \<open>\<^verbatim>\<open>SmartDevice._query_helper\<close>, whole. Python's \<^verbatim>\<open>None\<close> argument is \<open>JNull\<close>.\<close>

definition query_helper :: "device \<Rightarrow> string \<Rightarrow> string \<Rightarrow> json \<Rightarrow> json io" where
  "query_helper self target cmd arg =
     (let arg' = (if arg = JNull then JObj [] else arg) in
      io_bind (protocol_query (ip_address self) (JObj [(target, JObj [(cmd, arg')])]))
        (\<lambda>r. case r of
           None \<Rightarrow> io_raise (SmartDeviceException CommunicationError)
         | Some response \<Rightarrow> io_lift (unwrap_response target cmd response)))"

definition get_sysinfo :: "device \<Rightarrow> json io" where
  "get_sysinfo self = query_helper self ''system'' ''get_sysinfo'' JNull"

text \<open>
  \<^verbatim>\<open>sys_info\<close> wraps the result in \<^verbatim>\<open>defaultdict(lambda: None, ...)\<close>: \<open>dd_getitem\<close> is
  its subscript, a missing key reads as \<^verbatim>\<open>None\<close>. The helper only ever returns a dict
  (\<^verbatim>\<open>del\<close> has succeeded on it), so the subscript of anything else is never reached.
\<close>

definition sys_info :: "device \<Rightarrow> json io" where
  "sys_info self = get_sysinfo self"

fun dd_getitem :: "json \<Rightarrow> string \<Rightarrow> exn + json" where
  "dd_getitem (JObj kvs) k = (case map_of kvs k of None \<Rightarrow> Inr JNull | Some v \<Rightarrow> Inr v)"
| "dd_getitem v k = Inl TypeError"

text \<open>\<^verbatim>\<open>s.split(sep)\<close> for a one-character separator.\<close>

fun str_split :: "char \<Rightarrow> string \<Rightarrow> string list" where
  "str_split sep [] = [[]]"
| "str_split sep (c # cs) =
     (if c = sep then [] # str_split sep cs
      else (case str_split sep cs of [] \<Rightarrow> [[c]] | p # ps \<Rightarrow> (c # p) # ps))"

text \<open>\<^verbatim>\<open>x.split(u':')\<close>: only a text has the method.\<close>

fun py_split_colon :: "json \<Rightarrow> exn + string list" where
  "py_split_colon (JStr s) = Inr (str_split CHR '':'' s)"
| "py_split_colon v = Inl AttributeError"

definition FEATURE_ENERGY_METER :: string where
  "FEATURE_ENERGY_METER = ''ENE''"

text \<open>
  \<^verbatim>\<open>has_emeter\<close>: the base class raises, the plug reads the feature text of a fresh
  sysinfo, the bulb answers \<^verbatim>\<open>True\<close>.
\<close>

definition has_emeter :: "device \<Rightarrow> bool io" where
  "has_emeter self =
     (case cls self of
        SmartDevice \<Rightarrow> io_raise NotImplementedError
      | SmartPlug \<Rightarrow>
          io_bind (sys_info self) (\<lambda>info.
            io_lift (ebind (dd_getitem info ''feature'') (\<lambda>f.
              ebind (py_split_colon f) (\<lambda>features.
                Inr (FEATURE_ENERGY_METER \<in> set features)))))
      | SmartBulb \<Rightarrow> io_return True)"

section \<open>Energy metering\<close>

text \<open>
  The dict that \<^verbatim>\<open>dict((k, v) for ...)\<close> builds has keys that are JSON values. A list or
  a dict is not hashable; \<^verbatim>\<open>True\<close> and \<^verbatim>\<open>1\<close> (and \<^verbatim>\<open>False\<close> and \<^verbatim>\<open>0\<close>) are one key.
  Storing under a key that is present keeps the key and replaces the value. The order of
  the association list is the order of first insertion; Python 2 fixes none.
\<close>

fun py_hashable :: "json \<Rightarrow> bool" where
  "py_hashable (JList xs) = False"
| "py_hashable (JObj kvs) = False"
| "py_hashable v = True"

fun key_norm :: "json \<Rightarrow> json" where
  "key_norm (JBool b) = JInt (if b then 1 else 0)"
| "key_norm v = v"

definition py_key_eq :: "json \<Rightarrow> json \<Rightarrow> bool" where
  "py_key_eq a b = (key_norm a = key_norm b)"

fun dict_store :: "(json \<times> json) list \<Rightarrow> json \<Rightarrow> json \<Rightarrow> (json \<times> json) list" where
  "dict_store [] k v = [(k, v)]"
| "dict_store ((k', v') # kvs) k v =
     (if py_key_eq k' k then (k', v) # kvs else (k', v') # dict_store kvs k v)"

fun dict_get :: "(json \<times> json) list \<Rightarrow> json \<Rightarrow> json option" where
  "dict_get [] k = None"
| "dict_get ((k', v') # kvs) k = (if py_key_eq k' k then Some v' else dict_get kvs k)"

definition py_dict_setitem ::
  "(json \<times> json) list \<Rightarrow> json \<Rightarrow> json \<Rightarrow> exn + (json \<times> json) list" where
  "py_dict_setitem d k v = (if py_hashable k then Inr (dict_store d k v) else Inl TypeError)"

text \<open>
  \<^verbatim>\<open>for entry in x\<close>: the elements of a list, the keys of a dict, the characters of a
  text; nothing else iterates.
\<close>

fun py_iter :: "json \<Rightarrow> exn + json list" where
  "py_iter (JList xs) = Inr xs"
| "py_iter (JObj kvs) = Inr (map JStr (remdups (map fst kvs)))"
| "py_iter (JStr s) = Inr (map (\<lambda>c. JStr [c]) s)"
| "py_iter v = Inl TypeError"

text \<open>
  \<^verbatim>\<open>dict((entry[period], entry[key]) for entry in entries)\<close>, entry by entry: both
  subscripts, then the store.
\<close>

fun stat_dict ::
  "string \<Rightarrow> string \<Rightarrow> (json \<times> json) list \<Rightarrow> json list \<Rightarrow> exn + (json \<times> json) list" where
  "stat_dict period key acc [] = Inr acc"
| "stat_dict period key acc (entry # rest) =
     ebind (py_getitem entry period) (\<lambda>p.
       ebind (py_getitem entry key) (\<lambda>v.
         ebind (py_dict_setitem acc p v) (\<lambda>acc'.
           stat_dict period key acc' rest)))"

definition energy_key :: "device \<Rightarrow> string" where
  "energy_key self = (if emeter_units self then ''energy_wh'' else ''energy'')"

definition get_emeter_realtime :: "device \<Rightarrow> json option io" where
  "get_emeter_realtime self =
     io_bind (has_emeter self) (\<lambda>has.
       if \<not> has then io_return None
       else io_bind (query_helper self (emeter_type self) ''get_realtime'' JNull)
              (\<lambda>r. io_return (Some r)))"

definition get_emeter_daily ::
  "device \<Rightarrow> json \<Rightarrow> json \<Rightarrow> (json \<times> json) list option io" where
  "get_emeter_daily self year month =
     io_bind (has_emeter self) (\<lambda>has.
       if \<not> has then io_return None
       else (\<lambda>w.
         let year' = (if year = JNull then JInt (now_year w) else year);
             month' = (if month = JNull then JInt (now_month w) else month)
         in io_bind (query_helper self (emeter_type self) ''get_daystat''
                       (JObj [(''month'', month'), (''year'', year')]))
              (\<lambda>response. io_lift
                 (ebind (py_getitem response ''day_list'') (\<lambda>day_list.
                    ebind (py_iter day_list) (\<lambda>entries.
                      ebind (stat_dict ''day'' (energy_key self) [] entries) (\<lambda>d.
                        Inr (Some d)))))) w))"

definition get_emeter_monthly :: "device \<Rightarrow> json \<Rightarrow> (json \<times> json) list option io" where
  "get_emeter_monthly self year =
     io_bind (has_emeter self) (\<lambda>has.
       if \<not> has then io_return None
       else (\<lambda>w.
         let year' = (if year = JNull then JInt (now_year w) else year)
         in io_bind (query_helper self (emeter_type self) ''get_monthstat''
                       (JObj [(''year'', year')]))
              (\<lambda>response. io_lift
                 (ebind (py_getitem response ''month_list'') (\<lambda>month_list.
                    ebind (py_iter month_list) (\<lambda>entries.
                      ebind (stat_dict ''month'' (energy_key self) [] entries) (\<lambda>d.
                        Inr (Some d)))))) w))"

definition erase_emeter_stats :: "device \<Rightarrow> bool io" where
  "erase_emeter_stats self =
     io_bind (has_emeter self) (\<lambda>has.
       if \<not> has then io_return False
       else io_bind (query_helper self (emeter_type self) ''erase_emeter_stat'' JNull)
              (\<lambda>r. io_return True))"

section \<open>The bulb\<close>

definition LIGHTING_SERVICE :: string where
  "LIGHTING_SERVICE = ''smartlife.iot.smartbulb.lightingservice''"

definition BULB_STATE_ON :: string where
  "BULB_STATE_ON = ''ON''"

definition BULB_STATE_OFF :: string where
  "BULB_STATE_OFF = ''OFF''"

text \<open>\<^verbatim>\<open>bool(self.sys_info[flag])\<close>: the three capability properties of the bulb.\<close>

definition sys_info_flag :: "device \<Rightarrow> string \<Rightarrow> bool io" where
  "sys_info_flag self flag =
     io_bind (sys_info self) (\<lambda>info.
       io_lift (ebind (dd_getitem info flag) (\<lambda>v. Inr (py_truthy v))))"

definition is_color :: "device \<Rightarrow> bool io" where
  "is_color self = sys_info_flag self ''is_color''"

definition is_dimmable :: "device \<Rightarrow> bool io" where
  "is_dimmable self = sys_info_flag self ''is_dimmable''"

definition is_variable_color_temp :: "device \<Rightarrow> bool io" where
  "is_variable_color_temp self = sys_info_flag self ''is_variable_color_temp''"

definition get_light_state :: "device \<Rightarrow> json io" where
  "get_light_state self = query_helper self LIGHTING_SERVICE ''get_light_state'' JNull"

definition set_light_state :: "device \<Rightarrow> json \<Rightarrow> json io" where
  "set_light_state self st = query_helper self LIGHTING_SERVICE ''transition_light_state'' st"

text \<open>\<^verbatim>\<open>SmartBulb.state\<close> (the getter): a light-state query of its own.\<close>

definition SmartBulb_state :: "device \<Rightarrow> string io" where
  "SmartBulb_state self =
     io_bind (get_light_state self) (\<lambda>light_state.
       io_lift (ebind (py_getitem light_state ''on_off'') (\<lambda>v.
         Inr (if py_truthy v then BULB_STATE_ON else BULB_STATE_OFF))))"

text \<open>
  \<^verbatim>\<open>is_on\<close>: the base class raises, the plug reads \<^verbatim>\<open>relay_state\<close> of a fresh sysinfo,
  the bulb compares its \<^verbatim>\<open>state\<close> with \<^verbatim>\<open>BULB_STATE_ON\<close>.
\<close>

definition is_on :: "device \<Rightarrow> bool io" where
  "is_on self =
     (case cls self of
        SmartDevice \<Rightarrow> io_raise NotImplementedError
      | SmartPlug \<Rightarrow> sys_info_flag self ''relay_state''
      | SmartBulb \<Rightarrow> io_bind (SmartBulb_state self) (\<lambda>st. io_return (st = BULB_STATE_ON)))"

text \<open>
  \<^verbatim>\<open>int(x * a / b)\<close> under \<^verbatim>\<open>from __future__ import division\<close>: the quotient of two
  integers is the nearest double, and \<^verbatim>\<open>int\<close> drops its fraction. Below \<open>2 ^ 53\<close> in
  magnitude that is the exact quotient with its fraction dropped, which is what
  \<open>int_of_quotient\<close> computes. A text or a list times an integer is a repetition, which
  cannot be divided; \<^verbatim>\<open>None\<close> and a dict cannot be multiplied.
\<close>

definition int_of_quotient :: "int \<Rightarrow> int \<Rightarrow> int" where
  "int_of_quotient a b =
     (let q = (of_int a / of_int b :: rat) in if 0 \<le> q then \<lfloor>q\<rfloor> else \<lceil>q\<rceil>)"

fun py_scale :: "json \<Rightarrow> int \<Rightarrow> int \<Rightarrow> exn + int" where
  "py_scale (JInt n) a b = Inr (int_of_quotient (n * a) b)"
| "py_scale (JBool t) a b = Inr (int_of_quotient ((if t then 1 else 0) * a) b)"
| "py_scale v a b = Inl TypeError"

text \<open>
  \<^verbatim>\<open>int(x)\<close>. What \<^verbatim>\<open>int\<close> makes of a text is Python's number parser: \<open>atoi\<close> stands
  for it, \<open>None\<close> where it raises \<^verbatim>\<open>ValueError\<close>.
\<close>

fun py_int :: "(string \<Rightarrow> int option) \<Rightarrow> json \<Rightarrow> exn + int" where
  "py_int atoi (JInt n) = Inr n"
| "py_int atoi (JBool t) = Inr (if t then 1 else 0)"
| "py_int atoi (JStr s) = (case atoi s of None \<Rightarrow> Inl ValueError | Some n \<Rightarrow> Inr n)"
| "py_int atoi v = Inl TypeError"

text \<open>\<^verbatim>\<open>SmartBulb.hsv\<close>, getter and setter. The setter's \<open>state\<close> is a triple.\<close>

definition hsv :: "device \<Rightarrow> (json \<times> json \<times> int) option io" where
  "hsv self =
     io_bind (is_color self) (\<lambda>color.
       if \<not> color then io_return None
       else io_bind (get_light_state self) (\<lambda>light_state.
         io_bind (is_on self) (\<lambda>on.
           if \<not> on then io_lift
             (ebind (py_getitem light_state ''dft_on_state'') (\<lambda>d1.
              ebind (py_getitem d1 ''hue'') (\<lambda>hue.
              ebind (py_getitem light_state ''dft_on_state'') (\<lambda>d2.
              ebind (py_getitem d2 ''saturation'') (\<lambda>saturation.
              ebind (py_getitem light_state ''dft_on_state'') (\<lambda>d3.
              ebind (py_getitem d3 ''brightness'') (\<lambda>b.
              ebind (py_scale b 255 100) (\<lambda>val.
                Inr (Some (hue, saturation, val))))))))))
           else io_lift
             (ebind (py_getitem light_state ''hue'') (\<lambda>hue.
              ebind (py_getitem light_state ''saturation'') (\<lambda>saturation.
              ebind (py_getitem light_state ''brightness'') (\<lambda>b.
              ebind (py_scale b 255 100) (\<lambda>val.
                Inr (Some (hue, saturation, val))))))))))"

definition hsv_light_state :: "json \<times> json \<times> json \<Rightarrow> exn + json" where
  "hsv_light_state st =
     (case st of (h, s, v) \<Rightarrow>
        ebind (py_scale v 100 255) (\<lambda>b.
          Inr (JObj [(''hue'', h), (''saturation'', s), (''brightness'', JInt b),
                     (''color_temp'', JInt 0)])))"

definition hsv_set :: "device \<Rightarrow> json \<times> json \<times> json \<Rightarrow> unit io" where
  "hsv_set self st =
     io_bind (is_color self) (\<lambda>color.
       if \<not> color then io_return ()
       else io_bind (io_lift (hsv_light_state st)) (\<lambda>light_state.
         io_bind (set_light_state self light_state) (\<lambda>r. io_return ())))"

text \<open>\<^verbatim>\<open>SmartBulb.color_temp\<close> and \<^verbatim>\<open>SmartBulb.brightness\<close>, getters and setters.\<close>

definition color_temp :: "(string \<Rightarrow> int option) \<Rightarrow> device \<Rightarrow> int option io" where
  "color_temp atoi self =
     io_bind (is_variable_color_temp self) (\<lambda>variable.
       if \<not> variable then io_return None
       else io_bind (get_light_state self) (\<lambda>light_state.
         io_bind (is_on self) (\<lambda>on.
           if \<not> on then io_lift
             (ebind (py_getitem light_state ''dft_on_state'') (\<lambda>d.
              ebind (py_getitem d ''color_temp'') (\<lambda>t.
              ebind (py_int atoi t) (\<lambda>n. Inr (Some n)))))
           else io_lift
             (ebind (py_getitem light_state ''color_temp'') (\<lambda>t.
              ebind (py_int atoi t) (\<lambda>n. Inr (Some n)))))))"

definition color_temp_set :: "device \<Rightarrow> json \<Rightarrow> unit io" where
  "color_temp_set self temp =
     io_bind (is_variable_color_temp self) (\<lambda>variable.
       if \<not> variable then io_return ()
       else io_bind (set_light_state self (JObj [(''color_temp'', temp)]))
              (\<lambda>r. io_return ()))"

definition brightness :: "(string \<Rightarrow> int option) \<Rightarrow> device \<Rightarrow> int option io" where
  "brightness atoi self =
     io_bind (is_dimmable self) (\<lambda>dimmable.
       if \<not> dimmable then io_return None
       else io_bind (get_light_state self) (\<lambda>light_state.
         io_bind (is_on self) (\<lambda>on.
           if \<not> on then io_lift
             (ebind (py_getitem light_state ''dft_on_state'') (\<lambda>d.
              ebind (py_getitem d ''brightness'') (\<lambda>b.
              ebind (py_int atoi b) (\<lambda>n. Inr (Some n)))))
           else io_lift
             (ebind (py_getitem light_state ''brightness'') (\<lambda>b.
              ebind (py_int atoi b) (\<lambda>n. Inr (Some n)))))))"

definition brightness_set :: "device \<Rightarrow> json \<Rightarrow> unit io" where
  "brightness_set self b =
     io_bind (is_dimmable self) (\<lambda>dimmable.
       if \<not> dimmable then io_return ()
       else io_bind (set_light_state self (JObj [(''brightness'', b)]))
              (\<lambda>r. io_return ()))"

section \<open>Discovery\<close>

type_synonym byte = "8 word"

text \<open>
  Modelled from the spec: \<^verbatim>\<open>protocol.encrypt\<close> (protocol.py is not among the sources).
  The spec's frame is a 4-byte big-endian length prefix, never obfuscated, followed by the
  payload with each byte combined by exclusive-or with the previous output byte, the first
  with a fixed initial key. The spec does not give the key: it is the parameter \<open>key\<close>.
\<close>

fun xor_chain :: "byte \<Rightarrow> byte list \<Rightarrow> byte list" where
  "xor_chain key [] = []"
| "xor_chain key (b # bs) = (key XOR b) # xor_chain (key XOR b) bs"

definition length_prefix :: "nat \<Rightarrow> byte list" where
  "length_prefix n =
     [of_nat (n div 16777216), of_nat (n div 65536), of_nat (n div 256), of_nat n]"

definition wire_encode :: "byte \<Rightarrow> byte list \<Rightarrow> byte list" where
  "wire_encode key payload = length_prefix (length payload) @ xor_chain key payload"

definition discovery_query :: json where
  "discovery_query =
     JObj [(''emeter'', JObj [(''get_realtime'', JNull)]),
           (''system'', JObj [(''get_sysinfo'', JNull)])]"

text \<open>
  What \<^verbatim>\<open>sock.sendto\<close> is given: the bytes and the address. \<open>dumps\<close> is
  \<^verbatim>\<open>json.dumps\<close>, \<open>encrypt\<close> is \<^verbatim>\<open>protocol.encrypt\<close>; the slice \<^verbatim>\<open>[4:]\<close> is \<open>drop 4\<close>.
\<close>

definition discovery_datagram ::
  "(json \<Rightarrow> byte list) \<Rightarrow> (byte list \<Rightarrow> byte list) \<Rightarrow> nat \<Rightarrow> byte list \<times> string \<times> nat" where
  "discovery_datagram dumps encrypt port =
     (let req = dumps discovery_query;
          encrypted_req = encrypt req
      in (drop 4 encrypted_req, ''255.255.255.255'', port))"

datatype log_entry =
    Debug_sending
  | Debug_waiting
  | Debug_timeout
  | Error_no_type_field
  | Error_no_sysinfo
  | Error_exception exn

text \<open>
  The state of the receive loop: the dict \<open>devices\<close>, the local variable \<^verbatim>\<open>type\<close>
  (\<open>None\<close> until an iteration assigns it; it is a local of the function, so reading it
  unassigned raises \<^verbatim>\<open>UnboundLocalError\<close>) and what has been logged.
\<close>

record discovery =
  devices :: "(string \<times> device) list"
  type_var :: "json option"
  logged :: "log_entry list"

definition lower_char :: "char \<Rightarrow> char" where
  "lower_char c =
     (case map_of (zip ''ABCDEFGHIJKLMNOPQRSTUVWXYZ'' ''abcdefghijklmnopqrstuvwxyz'') c of
        None \<Rightarrow> c
      | Some l \<Rightarrow> l)"

text \<open>\<^verbatim>\<open>x.lower()\<close>: only a text has the method.\<close>

fun py_lower :: "json \<Rightarrow> exn + string" where
  "py_lower (JStr s) = Inr (map lower_char s)"
| "py_lower v = Inl AttributeError"

text \<open>
  Lines 61 to 71 of discover.py: the new value of \<^verbatim>\<open>type\<close> (\<open>None\<close>: not assigned in
  this iteration) and what the branch logs.
\<close>

definition read_type :: "json \<Rightarrow> exn + (json option \<times> log_entry list)" where
  "read_type info =
     ebind (py_in ''system'' info) (\<lambda>has_system.
     ebind (if has_system
            then ebind (py_getitem info ''system'') (\<lambda>sys. py_in ''get_sysinfo'' sys)
            else Inr False) (\<lambda>has_sysinfo.
       if has_sysinfo then
         ebind (py_getitem info ''system'') (\<lambda>sys.
         ebind (py_getitem sys ''get_sysinfo'') (\<lambda>sysinfo.
         ebind (py_in ''type'' sysinfo) (\<lambda>has_type.
           if has_type
           then ebind (py_getitem sysinfo ''type'') (\<lambda>t. Inr (Some t, []))
           else ebind (py_in ''mic_type'' sysinfo) (\<lambda>has_mic_type.
             if has_mic_type
             then ebind (py_getitem sysinfo ''mic_type'') (\<lambda>t. Inr (Some t, []))
             else Inr (Some (JStr ''UNKNOWN''), [Error_no_type_field])))))
       else Inr (None, [Error_no_sysinfo])))"

text \<open>
  Lines 72 to 75: the classification of the current value of \<^verbatim>\<open>type\<close> and the store
  into \<open>devices\<close>. The result is the exception that left the body, if any, and the state.
\<close>

definition classify :: "(string \<Rightarrow> bool) \<Rightarrow> discovery \<Rightarrow> string \<Rightarrow> exn option \<times> discovery" where
  "classify inet_pton st ip =
     (case type_var st of
        None \<Rightarrow> (Some UnboundLocalError, st)
      | Some t \<Rightarrow>
          (case py_lower t of
             Inl e \<Rightarrow> (Some e, st)
           | Inr low \<Rightarrow>
               if str_contains ''smartplug'' low then
                 (case SmartPlug_init inet_pton ip of
                    Inl e \<Rightarrow> (Some e, st)
                  | Inr dev \<Rightarrow> (None, st\<lparr>devices := AList.update ip dev (devices st)\<rparr>))
               else if str_contains ''smartbulb'' low then
                 (case SmartBulb_init inet_pton ip of
                    Inl e \<Rightarrow> (Some e, st)
                  | Inr dev \<Rightarrow> (None, st\<lparr>devices := AList.update ip dev (devices st)\<rparr>))
               else (None, st)))"

text \<open>
  One pass of the body of \<^verbatim>\<open>while True\<close> for a datagram \<open>(data, ip, port)\<close> that
  \<^verbatim>\<open>recvfrom\<close> returned. \<open>parse\<close> is \<^verbatim>\<open>json.loads(protocol.decrypt(data))\<close>, which
  either raises or gives a JSON value.
\<close>

definition loop_body ::
  "('d \<Rightarrow> exn + json) \<Rightarrow> (string \<Rightarrow> bool) \<Rightarrow> discovery \<Rightarrow> 'd \<times> string \<times> nat
     \<Rightarrow> exn option \<times> discovery" where
  "loop_body parse inet_pton st dgram =
     (case dgram of (data, ip, port) \<Rightarrow>
        (case parse data of
           Inl e \<Rightarrow> (Some e, st)
         | Inr info \<Rightarrow>
             (case read_type info of
                Inl e \<Rightarrow> (Some e, st)
              | Inr (assigned, msgs) \<Rightarrow>
                  classify inet_pton
                    (st\<lparr>type_var := (case assigned of None \<Rightarrow> type_var st | Some t \<Rightarrow> Some t),
                        logged := logged st @ msgs\<rparr>) ip)))"

text \<open>
  The \<^verbatim>\<open>try\<close> statement around the loop. \<open>dgrams\<close> are the datagrams that arrive before
  \<^verbatim>\<open>recvfrom\<close> times out. An exception out of the body leaves the loop, too: both handlers
  log and fall through to \<^verbatim>\<open>return devices\<close>.
\<close>

fun receive_loop ::
  "('d \<Rightarrow> exn + json) \<Rightarrow> (string \<Rightarrow> bool) \<Rightarrow> discovery \<Rightarrow> ('d \<times> string \<times> nat) list
     \<Rightarrow> discovery" where
  "receive_loop parse inet_pton st [] = st\<lparr>logged := logged st @ [Debug_timeout]\<rparr>"
| "receive_loop parse inet_pton st (dgram # rest) =
     (case loop_body parse inet_pton st dgram of
        (Some e, st') \<Rightarrow> st'\<lparr>logged := logged st' @ [Error_exception e]\<rparr>
      | (None, st') \<Rightarrow> receive_loop parse inet_pton st' rest)"

text \<open>
  \<^verbatim>\<open>Discover.discover\<close>: what is sent, and the loop's final state, whose \<open>devices\<close> is
  the value returned. The socket calls before the loop are taken to succeed.
\<close>

definition discover ::
  "(json \<Rightarrow> byte list) \<Rightarrow> (byte list \<Rightarrow> byte list) \<Rightarrow> ('d \<Rightarrow> exn + json) \<Rightarrow> (string \<Rightarrow> bool)
     \<Rightarrow> nat \<Rightarrow> ('d \<times> string \<times> nat) list \<Rightarrow> (byte list \<times> string \<times> nat) \<times> discovery" where
  "discover dumps encrypt parse inet_pton port dgrams =
     (discovery_datagram dumps encrypt port,
      receive_loop parse inet_pton
        \<lparr>devices = [], type_var = None, logged = [Debug_sending, Debug_waiting]\<rparr> dgrams)"

section \<open>Sample devices and replies\<close>

text \<open>
  The instances the constructors of the two families build, a world in which nothing has
  been sent yet, and a well-formed reply to \<^verbatim>\<open>system.get_sysinfo\<close>.
\<close>

definition plug_at :: "string \<Rightarrow> device" where
  "plug_at ip =
     \<lparr>cls = SmartPlug, ip_address = ip, emeter_type = ''emeter'', emeter_units = False\<rparr>"

definition bulb_at :: "string \<Rightarrow> device" where
  "bulb_at ip =
     \<lparr>cls = SmartBulb, ip_address = ip, emeter_type = ''smartlife.iot.common.emeter'',
      emeter_units = True\<rparr>"

definition fresh_world :: "json option list \<Rightarrow> world" where
  "fresh_world replies = \<lparr>inbox = replies, outbox = [], now_year = 2017, now_month = 6\<rparr>"

definition reply_to :: "string \<Rightarrow> string \<Rightarrow> (string \<times> json) list \<Rightarrow> json option" where
  "reply_to target cmd kvs =
     Some (JObj [(target, JObj [(cmd, JObj ((''err_code'', JInt 0) # kvs))])])"

definition sysinfo_request :: "device \<Rightarrow> string \<times> json" where
  "sysinfo_request self =
     (ip_address self, JObj [(''system'', JObj [(''get_sysinfo'', JObj [])])])"

text \<open>The request \<^verbatim>\<open>get_emeter_daily\<close> sends, read off its call of the helper.\<close>

definition daystat_request :: "device \<Rightarrow> json \<Rightarrow> json \<Rightarrow> world \<Rightarrow> string \<times> json" where
  "daystat_request self year month w =
     (ip_address self,
      JObj [(emeter_type self, JObj [(''get_daystat'',
        JObj [(''month'', if month = JNull then JInt (now_month w) else month),
              (''year'', if year = JNull then JInt (now_year w) else year)])])])"

text \<open>
  A bulb with all three capabilities, and its light state while off and while on. The
  state while off carries top-level attributes, too, so that the two sources differ.
\<close>

definition color_bulb_sysinfo :: "json option" where
  "color_bulb_sysinfo =
     reply_to ''system'' ''get_sysinfo''
       [(''is_color'', JInt 1), (''is_dimmable'', JInt 1), (''is_variable_color_temp'', JInt 1)]"

definition light_state_off :: "json option" where
  "light_state_off =
     reply_to LIGHTING_SERVICE ''get_light_state''
       [(''on_off'', JInt 0), (''hue'', JInt 1), (''saturation'', JInt 2),
        (''brightness'', JInt 3), (''color_temp'', JInt 4),
        (''dft_on_state'', JObj [(''hue'', JInt 120), (''saturation'', JInt 50),
                                (''brightness'', JInt 80), (''color_temp'', JInt 2700)])]"

definition light_state_on :: "json option" where
  "light_state_on =
     reply_to LIGHTING_SERVICE ''get_light_state''
       [(''on_off'', JInt 1), (''hue'', JInt 10), (''saturation'', JInt 20),
        (''brightness'', JInt 40), (''color_temp'', JInt 0)]"

text \<open>
  An \<open>inet_pton\<close> for the examples: the dotted quad as the GNU C library reads it, four
  decimal numbers up to 255 with no leading zero. The theorems hold for any \<open>inet_pton\<close>.
\<close>

definition is_digit :: "char \<Rightarrow> bool" where
  "is_digit c = (c \<in> set ''0123456789'')"

definition digit_value :: "char \<Rightarrow> nat" where
  "digit_value c = (case map_of (zip ''0123456789'' [0, 1, 2, 3, 4, 5, 6, 7, 8, 9]) c of
                      None \<Rightarrow> 0 | Some d \<Rightarrow> d)"

definition octet_ok :: "string \<Rightarrow> bool" where
  "octet_ok s =
     (s \<noteq> [] \<and> list_all is_digit s \<and> (length s = 1 \<or> hd s \<noteq> CHR ''0'')
      \<and> foldl (\<lambda>n c. 10 * n + digit_value c) 0 s \<le> 255)"

definition dotted_quad :: "string \<Rightarrow> bool" where
  "dotted_quad s =
     (let parts = str_split CHR ''.'' s in length parts = 4 \<and> list_all octet_ok parts)"

text \<open>The request the brightness setter sends for the value \<open>b\<close>.\<close>

definition brightness_request :: "device \<Rightarrow> json \<Rightarrow> string \<times> json" where
  "brightness_request self b =
     (ip_address self,
      JObj [(LIGHTING_SERVICE, JObj [(''transition_light_state'', JObj [(''brightness'', b)])])])"

text \<open>
  A reply to the discovery request with the given sysinfo fields, and the text of the
  discovery request as \<^verbatim>\<open>json.dumps\<close> writes it with the keys in this order.
\<close>

definition discovery_reply :: "(string \<times> json) list \<Rightarrow> json" where
  "discovery_reply sysinfo =
     JObj [(''system'', JObj [(''get_sysinfo'', JObj ((''err_code'', JInt 0) # sysinfo))])]"

definition discovery_request_text :: string where
  \<open>discovery_request_text =
     ''{"emeter": {"get_realtime": null}, "system": {"get_sysinfo": null}}''\<close>

text \<open>
  The request the HSV setter sends when the brightness it computed is \<open>b\<close>, and the light
  state of a bulb that is on with brightness \<open>b\<close>.
\<close>

definition hsv_request :: "device \<Rightarrow> json \<Rightarrow> json \<Rightarrow> int \<Rightarrow> string \<times> json" where
  "hsv_request self h s b =
     (ip_address self,
      JObj [(LIGHTING_SERVICE, JObj [(''transition_light_state'',
        JObj [(''hue'', h), (''saturation'', s), (''brightness'', JInt b),
              (''color_temp'', JInt 0)])])])"

definition lit_bulb_state :: "int \<Rightarrow> json option" where
  "lit_bulb_state b =
     reply_to LIGHTING_SERVICE ''get_light_state''
       [(''on_off'', JInt 1), (''hue'', JInt 10), (''saturation'', JInt 20),
        (''brightness'', JInt b), (''color_temp'', JInt 0)]"

section \<open>Basic facts\<close>

lemma ebind_simps: "ebind (Inl e) f = Inl e" "ebind (Inr x) f = f x"
  by (simp_all add: ebind_def)

lemma io_bind_simps:
  "m w = (Inl e, w') \<Longrightarrow> io_bind m f w = (Inl e, w')"
  "m w = (Inr x, w') \<Longrightarrow> io_bind m f w = f x w'"
  by (simp_all add: io_bind_def)

lemmas io_defs = io_bind_def io_lift_def io_raise_def io_return_def

lemmas query_defs = query_helper_def protocol_query_def unwrap_response_def Let_def

lemmas sample_defs = plug_at_def bulb_at_def fresh_world_def reply_to_def sysinfo_request_def

text \<open>The helper sends exactly one request, whatever comes back.\<close>

lemma query_helper_outbox:
  "outbox (snd (query_helper self target cmd arg w)) =
     outbox w @
     [(ip_address self, JObj [(target, JObj [(cmd, if arg = JNull then JObj [] else arg)])])]"
  by (simp add: query_helper_def protocol_query_def io_defs Let_def
      split: list.splits option.splits)

lemma query_helper_received:
  "inbox w = Some response # rest \<Longrightarrow>
   fst (query_helper self target cmd arg w) = unwrap_response target cmd response"
  by (simp add: query_helper_def protocol_query_def io_defs Let_def)

section \<open>Device-reported errors\<close>

text \<open>
  An \<^verbatim>\<open>err_code\<close> that differs from 0 directly under the namespace raises
  \<^verbatim>\<open>SmartDeviceException\<close> with target, command and the namespace object.
\<close>

lemma namespace_err_code_raises:
  assumes "map_of resp target = Some (JObj ns)"
    and "map_of ns ''err_code'' = Some c" and "py_ne_zero c"
  shows "unwrap_response target cmd (JObj resp) =
           Inl (SmartDeviceException (ErrorOn target cmd (JObj ns)))"
  using assms by (simp add: unwrap_response_def ebind_simps)

text \<open>
  Claim C1. A response that carries a nonzero \<^verbatim>\<open>err_code\<close> makes the query helper raise
  \<^verbatim>\<open>SmartDeviceException\<close> and is never returned as a result. The helper looks for the
  code directly under the namespace only. A device reports the failure of a command in the
  command's own object, the one the helper deletes \<^verbatim>\<open>err_code\<close> from: there the code
  \<open>-3\<close> is dropped and what is left is returned as the result of the call.
\<close>

theorem query_helper_returns_rejected_command:
  "query_helper (plug_at ''192.168.0.10'') ''system'' ''set_dev_alias''
       (JObj [(''alias'', JInt 5)])
       (fresh_world [Some (JObj [(''system'', JObj [(''set_dev_alias'',
           JObj [(''err_code'', JInt (- 3)), (''err_msg'', JStr ''invalid argument'')])])])])
   = (Inr (JObj [(''err_msg'', JStr ''invalid argument'')]),
      \<lparr>inbox = [],
       outbox = [(''192.168.0.10'',
                  JObj [(''system'', JObj [(''set_dev_alias'', JObj [(''alias'', JInt 5)])])])],
       now_year = 2017, now_month = 6\<rparr>)"
  by (simp add: query_defs io_defs sample_defs ebind_simps AList.delete_eq)

text \<open>
  Claim C10. When the requested namespace is present and no nonzero \<^verbatim>\<open>err_code\<close> is
  found directly under it, the helper takes the command's object out of the namespace
  object and deletes \<^verbatim>\<open>err_code\<close> from it without looking first. So the call returns the
  command's object less that key when it is a dict that has the key, and raises
  \<^verbatim>\<open>KeyError\<close> or \<^verbatim>\<open>TypeError\<close>, never \<^verbatim>\<open>SmartDeviceException\<close>, in every other case:
  the command missing from the namespace object, the key missing from the command's object,
  or one of the two not a dict.
\<close>

theorem query_helper_deletes_err_code:
  assumes received: "inbox w = Some (JObj resp) # rest"
    and present: "map_of resp target = Some ns"
    and no_error: "\<forall>c. py_getitem ns ''err_code'' = Inr c \<longrightarrow> \<not> py_ne_zero c"
  shows "fst (query_helper self target cmd arg w) =
     (case ns of
        JObj nkv \<Rightarrow>
          (case map_of nkv cmd of
             None \<Rightarrow> Inl KeyError
           | Some (JObj inner) \<Rightarrow>
               if map_of inner ''err_code'' = None then Inl KeyError
               else Inr (JObj (AList.delete ''err_code'' inner))
           | Some other \<Rightarrow> Inl TypeError)
      | other \<Rightarrow> Inl TypeError)"
proof -
  have "fst (query_helper self target cmd arg w) = unwrap_response target cmd (JObj resp)"
    using received by (rule query_helper_received)
  also have "\<dots> = (case ns of
        JObj nkv \<Rightarrow>
          (case map_of nkv cmd of
             None \<Rightarrow> Inl KeyError
           | Some (JObj inner) \<Rightarrow>
               if map_of inner ''err_code'' = None then Inl KeyError
               else Inr (JObj (AList.delete ''err_code'' inner))
           | Some other \<Rightarrow> Inl TypeError)
      | other \<Rightarrow> Inl TypeError)"
    using present no_error
    by (cases ns)
       (auto simp add: unwrap_response_def ebind_simps split: option.splits json.splits)
  finally show ?thesis .
qed

theorem query_helper_deletes_err_code_witness:
  "fst (query_helper (plug_at ''192.168.0.10'') ''system'' ''get_sysinfo'' JNull
         (fresh_world [Some (JObj [(''system'', JObj [(''get_sysinfo'',
             JObj [(''alias'', JStr ''lamp'')])])])])) = Inl KeyError
   \<and> fst (query_helper (plug_at ''192.168.0.10'') ''system'' ''get_sysinfo'' JNull
         (fresh_world [Some (JObj [(''system'', JObj [(''err_code'', JInt 0)])])]))
       = Inl KeyError
   \<and> fst (query_helper (plug_at ''192.168.0.10'') ''system'' ''get_sysinfo'' JNull
         (fresh_world [Some (JObj [(''system'', JObj [(''get_sysinfo'', JInt 7)])])]))
       = Inl TypeError
   \<and> fst (query_helper (plug_at ''192.168.0.10'') ''system'' ''get_sysinfo'' JNull
         (fresh_world [reply_to ''system'' ''get_sysinfo'' [(''alias'', JStr ''lamp'')]]))
       = Inr (JObj [(''alias'', JStr ''lamp'')])"
  using
    query_helper_deletes_err_code
      [of "fresh_world [Some (JObj [(''system'', JObj [(''get_sysinfo'',
             JObj [(''alias'', JStr ''lamp'')])])])]" _ "[]" "''system''" _
          "plug_at ''192.168.0.10''" "''get_sysinfo''" JNull]
    query_helper_deletes_err_code
      [of "fresh_world [Some (JObj [(''system'', JObj [(''err_code'', JInt 0)])])]" _ "[]"
          "''system''" _ "plug_at ''192.168.0.10''" "''get_sysinfo''" JNull]
    query_helper_deletes_err_code
      [of "fresh_world [Some (JObj [(''system'', JObj [(''get_sysinfo'', JInt 7)])])]" _ "[]"
          "''system''" _ "plug_at ''192.168.0.10''" "''get_sysinfo''" JNull]
    query_helper_deletes_err_code
      [of "fresh_world [reply_to ''system'' ''get_sysinfo'' [(''alias'', JStr ''lamp'')]]" _
          "[]" "''system''" _ "plug_at ''192.168.0.10''" "''get_sysinfo''" JNull]
  by (simp add: sample_defs AList.delete_eq)

section \<open>Devices without an energy meter\<close>

lemma has_emeter_False:
  assumes "has_emeter self w = (Inr False, w')"
  shows "cls self = SmartPlug" and "outbox w' = outbox w @ [sysinfo_request self]"
proof -
  show c: "cls self = SmartPlug"
    using assms by (cases "cls self") (simp_all add: has_emeter_def io_defs)
  have "snd (has_emeter self w) = snd (sys_info self w)"
    using c by (simp add: has_emeter_def io_defs split: prod.splits sum.splits)
  then have "w' = snd (get_sysinfo self w)"
    using assms by (simp add: sys_info_def)
  then show "outbox w' = outbox w @ [sysinfo_request self]"
    by (simp add: get_sysinfo_def query_helper_outbox sysinfo_request_def)
qed

text \<open>
  Claim C7. On a device that has no energy meter, that is, whose \<^verbatim>\<open>has_emeter\<close> answers
  \<^verbatim>\<open>False\<close>, the realtime reading, the daily and the monthly statistics return \<^verbatim>\<open>None\<close>
  and erasing the statistics returns \<^verbatim>\<open>False\<close>. Each of them leaves the world as
  \<^verbatim>\<open>has_emeter\<close> left it: the one request sent is the \<^verbatim>\<open>system.get_sysinfo\<close> that
  \<^verbatim>\<open>has_emeter\<close> reads the feature list from, and no metering query follows.
\<close>

theorem no_emeter_no_metering_query:
  assumes "has_emeter self w = (Inr False, w')"
  shows "get_emeter_realtime self w = (Inr None, w')
       \<and> get_emeter_daily self year month w = (Inr None, w')
       \<and> get_emeter_monthly self year w = (Inr None, w')
       \<and> erase_emeter_stats self w = (Inr False, w')
       \<and> outbox w' = outbox w @ [sysinfo_request self]"
  using assms has_emeter_False(2) [OF assms]
  by (simp add: get_emeter_realtime_def get_emeter_daily_def get_emeter_monthly_def
      erase_emeter_stats_def io_bind_def io_return_def)

theorem no_emeter_no_metering_query_witness:
  "has_emeter (plug_at ''192.168.0.10'')
       (fresh_world [reply_to ''system'' ''get_sysinfo'' [(''feature'', JStr ''TIM'')]])
     = (Inr False, (fresh_world []) \<lparr>outbox := [sysinfo_request (plug_at ''192.168.0.10'')]\<rparr>)
   \<and> get_emeter_realtime (plug_at ''192.168.0.10'')
       (fresh_world [reply_to ''system'' ''get_sysinfo'' [(''feature'', JStr ''TIM'')]])
     = (Inr None, (fresh_world []) \<lparr>outbox := [sysinfo_request (plug_at ''192.168.0.10'')]\<rparr>)
   \<and> get_emeter_daily (plug_at ''192.168.0.10'') (JInt 2016) JNull
       (fresh_world [reply_to ''system'' ''get_sysinfo'' [(''feature'', JStr ''TIM'')]])
     = (Inr None, (fresh_world []) \<lparr>outbox := [sysinfo_request (plug_at ''192.168.0.10'')]\<rparr>)
   \<and> get_emeter_monthly (plug_at ''192.168.0.10'') (JInt 2016)
       (fresh_world [reply_to ''system'' ''get_sysinfo'' [(''feature'', JStr ''TIM'')]])
     = (Inr None, (fresh_world []) \<lparr>outbox := [sysinfo_request (plug_at ''192.168.0.10'')]\<rparr>)
   \<and> erase_emeter_stats (plug_at ''192.168.0.10'')
       (fresh_world [reply_to ''system'' ''get_sysinfo'' [(''feature'', JStr ''TIM'')]])
     = (Inr False, (fresh_world []) \<lparr>outbox := [sysinfo_request (plug_at ''192.168.0.10'')]\<rparr>)"
proof -
  have h: "has_emeter (plug_at ''192.168.0.10'')
       (fresh_world [reply_to ''system'' ''get_sysinfo'' [(''feature'', JStr ''TIM'')]])
     = (Inr False, (fresh_world []) \<lparr>outbox := [sysinfo_request (plug_at ''192.168.0.10'')]\<rparr>)"
    by (simp add: has_emeter_def sys_info_def get_sysinfo_def query_defs io_defs sample_defs
        ebind_simps AList.delete_eq FEATURE_ENERGY_METER_def)
  show ?thesis
    using h no_emeter_no_metering_query [OF h, of "JInt 2016" JNull] by simp
qed

section \<open>Daily statistics\<close>

lemma query_helper_step:
  "inbox w = Some reply # rest \<Longrightarrow>
   query_helper self target cmd arg w =
     (unwrap_response target cmd reply,
      w\<lparr>inbox := rest,
        outbox := outbox w @
          [(ip_address self,
            JObj [(target, JObj [(cmd, if arg = JNull then JObj [] else arg)])])]\<rparr>)"
  by (simp add: query_helper_def protocol_query_def io_defs Let_def)

lemma dict_get_store:
  "dict_get (dict_store m k v) k' = (if py_key_eq k k' then Some v else dict_get m k')"
  by (induction m) (auto simp: py_key_eq_def)

lemma find_app:
  "find P (xs @ ys) = (case find P xs of None \<Rightarrow> find P ys | Some x \<Rightarrow> Some x)"
  by (induction xs) simp_all

text \<open>Reading the dict built from a list of pairs: the last pair stored under the key.\<close>

lemma dict_get_foldl:
  "dict_get (foldl (\<lambda>m (d, v). dict_store m d v) acc ps) k =
     (case find (\<lambda>(d, v). py_key_eq d k) (rev ps) of
        None \<Rightarrow> dict_get acc k
      | Some (d, v) \<Rightarrow> Some v)"
proof (induction ps arbitrary: acc)
  case Nil
  then show ?case by simp
next
  case (Cons p ps)
  obtain d v where p: "p = (d, v)" by (cases p)
  show ?case
    by (simp add: Cons.IH p find_app dict_get_store split: option.splits)
qed

lemma stat_dict_pairs:
  assumes "list_all2 (\<lambda>e (d, v). py_getitem e period = Inr d \<and> py_getitem e key = Inr v
             \<and> py_hashable d) entries ps"
  shows "stat_dict period key acc entries = Inr (foldl (\<lambda>m (d, v). dict_store m d v) acc ps)"
  using assms
proof (induction entries ps arbitrary: acc rule: list_all2_induct)
  case Nil
  then show ?case by simp
next
  case (Cons e es p ps)
  then show ?case
    by (cases p) (simp add: ebind_simps py_dict_setitem_def)
qed

text \<open>
  Claim C5. On a device with an energy meter, \<^verbatim>\<open>get_emeter_daily\<close> turns the entries of
  the reply's \<^verbatim>\<open>day_list\<close> into a dict from each entry's \<^verbatim>\<open>day\<close> to its energy value,
  read from \<^verbatim>\<open>energy_wh\<close> when the device's unit flag is set and from \<^verbatim>\<open>energy\<close> when
  it is not. \<open>ps\<close> lists, entry by entry, the day and the value read; the dict is those
  pairs stored in order, so a day reads as the value of the last entry that has it.
\<close>

theorem daily_statistics_by_day:
  assumes meter: "has_emeter self w = (Inr True, w1)"
    and received: "inbox w1 = Some reply # rest"
    and unwrapped: "unwrap_response (emeter_type self) ''get_daystat'' reply = Inr response"
    and day_list: "py_getitem response ''day_list'' = Inr (JList entries)"
    and entries:
      "list_all2 (\<lambda>entry (d, v). py_getitem entry ''day'' = Inr d
          \<and> py_getitem entry (if emeter_units self then ''energy_wh'' else ''energy'') = Inr v
          \<and> py_hashable d) entries ps"
  shows "\<exists>m. get_emeter_daily self year month w =
               (Inr (Some m),
                w1\<lparr>inbox := rest, outbox := outbox w1 @ [daystat_request self year month w1]\<rparr>)
           \<and> m = foldl (\<lambda>m (d, v). dict_store m d v) [] ps
           \<and> (\<forall>k. dict_get m k =
                (case find (\<lambda>(d, v). py_key_eq d k) (rev ps) of
                   None \<Rightarrow> None | Some (d, v) \<Rightarrow> Some v))"
proof -
  have "stat_dict ''day'' (energy_key self) [] entries =
          Inr (foldl (\<lambda>m (d, v). dict_store m d v) [] ps)"
    using entries by (intro stat_dict_pairs) (simp add: energy_key_def)
  then have "get_emeter_daily self year month w =
          (Inr (Some (foldl (\<lambda>m (d, v). dict_store m d v) [] ps)),
           w1\<lparr>inbox := rest, outbox := outbox w1 @ [daystat_request self year month w1]\<rparr>)"
    using meter unwrapped day_list
    by (simp add: get_emeter_daily_def io_bind_def io_lift_def Let_def ebind_simps
        query_helper_step [OF received] daystat_request_def)
  then show ?thesis
    by (simp add: dict_get_foldl split: option.splits)
qed

text \<open>
  The spec's example on a bulb, whose unit flag is set, and the same days on a plug with an
  energy meter, whose flag is not: the plug's dict holds the \<^verbatim>\<open>energy\<close> values.
\<close>

theorem daily_statistics_by_day_witness:
  "get_emeter_daily (bulb_at ''192.168.0.20'') (JInt 2017) JNull
     (fresh_world [reply_to ''smartlife.iot.common.emeter'' ''get_daystat''
        [(''day_list'', JList
            [JObj [(''year'', JInt 2017), (''month'', JInt 6), (''day'', JInt 1),
                   (''energy_wh'', JInt 120)],
             JObj [(''year'', JInt 2017), (''month'', JInt 6), (''day'', JInt 2),
                   (''energy_wh'', JInt 80)]])]])
   = (Inr (Some [(JInt 1, JInt 120), (JInt 2, JInt 80)]),
      (fresh_world []) \<lparr>outbox := [(''192.168.0.20'',
         JObj [(''smartlife.iot.common.emeter'', JObj [(''get_daystat'',
           JObj [(''month'', JInt 6), (''year'', JInt 2017)])])])]\<rparr>)
   \<and> get_emeter_daily (plug_at ''192.168.0.10'') (JInt 2017) (JInt 6)
     (fresh_world [reply_to ''system'' ''get_sysinfo'' [(''feature'', JStr ''TIM:ENE'')],
        reply_to ''emeter'' ''get_daystat''
        [(''day_list'', JList
            [JObj [(''day'', JInt 1), (''energy'', JInt 3), (''energy_wh'', JInt 120)],
             JObj [(''day'', JInt 2), (''energy'', JInt 4), (''energy_wh'', JInt 80)]])]])
   = (Inr (Some [(JInt 1, JInt 3), (JInt 2, JInt 4)]),
      (fresh_world []) \<lparr>outbox := [sysinfo_request (plug_at ''192.168.0.10''),
        (''192.168.0.10'',
         JObj [(''emeter'', JObj [(''get_daystat'',
           JObj [(''month'', JInt 6), (''year'', JInt 2017)])])])]\<rparr>)"
proof -
  have b1: "has_emeter (bulb_at ''192.168.0.20'') w = (Inr True, w)" for w
    by (simp add: has_emeter_def bulb_at_def io_return_def)
  have p1: "has_emeter (plug_at ''192.168.0.10'')
      (fresh_world (reply_to ''system'' ''get_sysinfo'' [(''feature'', JStr ''TIM:ENE'')] # rs)) =
      (Inr True, (fresh_world rs) \<lparr>outbox := [sysinfo_request (plug_at ''192.168.0.10'')]\<rparr>)"
    for rs
    by (simp add: has_emeter_def sys_info_def get_sysinfo_def query_defs io_defs sample_defs
        ebind_simps AList.delete_eq FEATURE_ENERGY_METER_def)
  show ?thesis
    using
      daily_statistics_by_day [OF b1, of _ _ "[]" _
         "[JObj [(''year'', JInt 2017), (''month'', JInt 6), (''day'', JInt 1),
                 (''energy_wh'', JInt 120)],
           JObj [(''year'', JInt 2017), (''month'', JInt 6), (''day'', JInt 2),
                 (''energy_wh'', JInt 80)]]"
         "[(JInt 1, JInt 120), (JInt 2, JInt 80)]" "JInt 2017" JNull]
      daily_statistics_by_day [OF p1, of _ _ "[]" _
         "[JObj [(''day'', JInt 1), (''energy'', JInt 3), (''energy_wh'', JInt 120)],
           JObj [(''day'', JInt 2), (''energy'', JInt 4), (''energy_wh'', JInt 80)]]"
         "[(JInt 1, JInt 3), (JInt 2, JInt 4)]" "JInt 2017" "JInt 6"]
    by (simp add: sample_defs unwrap_response_def ebind_simps AList.delete_eq py_key_eq_def
        daystat_request_def)
qed

section \<open>Light attributes of a bulb\<close>

lemma is_on_bulb:
  assumes "cls self = SmartBulb"
    and "get_light_state self w = (Inr current, w')"
    and "py_getitem current ''on_off'' = Inr v"
  shows "is_on self w = (Inr (py_truthy v), w')"
  using assms
  by (simp add: is_on_def SmartBulb_state_def io_defs ebind_simps BULB_STATE_ON_def
      BULB_STATE_OFF_def)

text \<open>
  Claim C3. The brightness, colour temperature and HSV getters of a bulb take a light state
  from one query and ask \<^verbatim>\<open>is_on\<close>, which sends a second light-state query and reads
  its \<^verbatim>\<open>on_off\<close>. When that reads as false, all attributes are read from the
  \<^verbatim>\<open>dft_on_state\<close> object of the first light state; when it reads as true, from the
  top level of the first light state. \<open>source\<close> is the object read in either case.
\<close>

theorem bulb_getters_read_default_on_state_when_off:
  assumes bulb: "cls self = SmartBulb"
    and first: "get_light_state self w1 = (Inr light_state, w2)"
    and second: "get_light_state self w2 = (Inr current, w3)"
    and on_off: "py_getitem current ''on_off'' = Inr v"
    and source: "source = (if py_truthy v then Inr light_state
                           else py_getitem light_state ''dft_on_state'')"
  shows "(is_dimmable self w = (Inr True, w1) \<longrightarrow>
            brightness atoi self w =
              (ebind source (\<lambda>s. ebind (py_getitem s ''brightness'') (\<lambda>b.
                 ebind (py_int atoi b) (\<lambda>n. Inr (Some n)))), w3))
       \<and> (is_variable_color_temp self w = (Inr True, w1) \<longrightarrow>
            color_temp atoi self w =
              (ebind source (\<lambda>s. ebind (py_getitem s ''color_temp'') (\<lambda>t.
                 ebind (py_int atoi t) (\<lambda>n. Inr (Some n)))), w3))
       \<and> (is_color self w = (Inr True, w1) \<longrightarrow>
            hsv self w =
              (ebind source (\<lambda>s. ebind (py_getitem s ''hue'') (\<lambda>h.
                 ebind (py_getitem s ''saturation'') (\<lambda>sa.
                 ebind (py_getitem s ''brightness'') (\<lambda>b.
                 ebind (py_scale b 255 100) (\<lambda>val. Inr (Some (h, sa, val))))))), w3))"
proof -
  have on: "is_on self w2 = (Inr (py_truthy v), w3)"
    using bulb second on_off by (rule is_on_bulb)
  show ?thesis
    using first on source
    by (cases "py_getitem light_state ''dft_on_state''")
       (simp_all add: brightness_def color_temp_def hsv_def io_defs ebind_simps)
qed

lemmas bulb_sample_defs = color_bulb_sysinfo_def light_state_off_def light_state_on_def
  LIGHTING_SERVICE_def

theorem bulb_getters_read_default_on_state_when_off_witness:
  "brightness (\<lambda>s. None) (bulb_at ''192.168.0.20'')
       (fresh_world [color_bulb_sysinfo, light_state_off, light_state_off])
     = (Inr (Some 80),
        (fresh_world []) \<lparr>outbox := [sysinfo_request (bulb_at ''192.168.0.20''),
          (''192.168.0.20'', JObj [(LIGHTING_SERVICE, JObj [(''get_light_state'', JObj [])])]),
          (''192.168.0.20'', JObj [(LIGHTING_SERVICE, JObj [(''get_light_state'', JObj [])])])]\<rparr>)
   \<and> fst (color_temp (\<lambda>s. None) (bulb_at ''192.168.0.20'')
       (fresh_world [color_bulb_sysinfo, light_state_off, light_state_off])) = Inr (Some 2700)
   \<and> fst (hsv (bulb_at ''192.168.0.20'')
       (fresh_world [color_bulb_sysinfo, light_state_off, light_state_off]))
     = Inr (Some (JInt 120, JInt 50, 204))
   \<and> fst (brightness (\<lambda>s. None) (bulb_at ''192.168.0.20'')
       (fresh_world [color_bulb_sysinfo, light_state_on, light_state_on])) = Inr (Some 40)
   \<and> fst (color_temp (\<lambda>s. None) (bulb_at ''192.168.0.20'')
       (fresh_world [color_bulb_sysinfo, light_state_on, light_state_on])) = Inr (Some 0)
   \<and> fst (hsv (bulb_at ''192.168.0.20'')
       (fresh_world [color_bulb_sysinfo, light_state_on, light_state_on]))
     = Inr (Some (JInt 10, JInt 20, 102))"
proof -
  let ?B = "bulb_at ''192.168.0.20''"
  let ?q = "(''192.168.0.20'', JObj [(LIGHTING_SERVICE, JObj [(''get_light_state'', JObj [])])])"
  let ?off = "JObj [(''on_off'', JInt 0), (''hue'', JInt 1), (''saturation'', JInt 2),
        (''brightness'', JInt 3), (''color_temp'', JInt 4),
        (''dft_on_state'', JObj [(''hue'', JInt 120), (''saturation'', JInt 50),
                                (''brightness'', JInt 80), (''color_temp'', JInt 2700)])]"
  let ?on = "JObj [(''on_off'', JInt 1), (''hue'', JInt 10), (''saturation'', JInt 20),
        (''brightness'', JInt 40), (''color_temp'', JInt 0)]"
  have bulb: "cls ?B = SmartBulb"
    by (simp add: bulb_at_def)
  have scale: "int_of_quotient 20400 100 = 204" "int_of_quotient 10200 100 = 102"
    by (simp_all add: int_of_quotient_def)
  have flags: "is_dimmable ?B (fresh_world (color_bulb_sysinfo # rs)) =
                 (Inr True, (fresh_world rs) \<lparr>outbox := [sysinfo_request ?B]\<rparr>)"
      "is_variable_color_temp ?B (fresh_world (color_bulb_sysinfo # rs)) =
                 (Inr True, (fresh_world rs) \<lparr>outbox := [sysinfo_request ?B]\<rparr>)"
      "is_color ?B (fresh_world (color_bulb_sysinfo # rs)) =
                 (Inr True, (fresh_world rs) \<lparr>outbox := [sysinfo_request ?B]\<rparr>)" for rs
    by (simp_all add: is_dimmable_def is_variable_color_temp_def is_color_def sys_info_flag_def
        sys_info_def get_sysinfo_def query_defs io_defs sample_defs bulb_sample_defs ebind_simps
        AList.delete_eq)
  have off: "get_light_state ?B ((fresh_world (light_state_off # rs)) \<lparr>outbox := out\<rparr>) =
               (Inr ?off, (fresh_world rs) \<lparr>outbox := out @ [?q]\<rparr>)"
    and on: "get_light_state ?B ((fresh_world (light_state_on # rs)) \<lparr>outbox := out\<rparr>) =
               (Inr ?on, (fresh_world rs) \<lparr>outbox := out @ [?q]\<rparr>)" for rs out
    by (simp_all add: get_light_state_def query_defs io_defs sample_defs bulb_sample_defs
        ebind_simps AList.delete_eq)
  have v_off: "py_getitem ?off ''on_off'' = Inr (JInt 0)"
    and v_on: "py_getitem ?on ''on_off'' = Inr (JInt 1)"
    by simp_all
  let ?s = "sysinfo_request ?B"
  show ?thesis
    using bulb_getters_read_default_on_state_when_off [OF bulb off [where rs="[light_state_off]" and out="[?s]"] off [where rs="[]" and out="[?s] @ [?q]"] v_off refl,
              where atoi="\<lambda>s. None"
                 and w="fresh_world [color_bulb_sysinfo, light_state_off, light_state_off]"]
          bulb_getters_read_default_on_state_when_off [OF bulb on [where rs="[light_state_on]" and out="[?s]"] on [where rs="[]" and out="[?s] @ [?q]"] v_on refl,
              where atoi="\<lambda>s. None"
                 and w="fresh_world [color_bulb_sysinfo, light_state_on, light_state_on]"]
    by (simp add: flags scale ebind_simps)
qed

section \<open>Brightness scales\<close>

lemma int_of_quotient_pos:
  assumes "0 < b"
  shows "int_of_quotient a b = (if 0 \<le> a then a div b else - ((- a) div b))"
proof (cases "0 \<le> a")
  case True
  then have "0 \<le> (of_int a / of_int b :: rat)"
    using assms by simp
  then show ?thesis
    using True by (simp add: int_of_quotient_def floor_divide_of_int_eq)
next
  case False
  then have neg: "\<not> 0 \<le> (of_int a / of_int b :: rat)"
    using assms by (simp add: zero_le_divide_iff)
  have "\<lceil>of_int a / of_int b :: rat\<rceil> = - \<lfloor>of_int (- a) / of_int b :: rat\<rfloor>"
    by (simp add: ceiling_def)
  also have "\<dots> = - ((- a) div b)"
    by (simp only: floor_divide_of_int_eq)
  finally show ?thesis
    using False neg by (simp add: int_of_quotient_def)
qed

lemma snd_io_bind_return: "snd (io_bind m (\<lambda>r. io_return x) w) = snd (m w)"
  by (simp add: io_bind_def io_return_def split: prod.splits sum.splits)

text \<open>
  Claim C6. The HSV setter of a colour bulb sends the caller's value, given on the scale 0
  to 255, as the brightness \<^verbatim>\<open>int(value * 100 / 255)\<close>; the HSV getter returns the
  brightness it reads from the light state as \<^verbatim>\<open>int(brightness * 255 / 100)\<close>. Both are
  the exact quotient with its fraction dropped, towards zero. \<open>ws\<close> is the world the setter
  starts in and \<open>w\<close> the one the getter starts in; \<open>src\<close> is the object the getter reads,
  the light state or its \<^verbatim>\<open>dft_on_state\<close>. The bound \<open>2 ^ 53\<close> is where the double that
  carries the quotient stops being exact.
\<close>

theorem brightness_scale_conversion:
  assumes color_set: "is_color self ws = (Inr True, ws')"
    and color: "is_color self w = (Inr True, w')"
    and bulb: "cls self = SmartBulb"
    and first: "get_light_state self w' = (Inr light_state, w'')"
    and second: "get_light_state self w'' = (Inr current, w''')"
    and on_off: "py_getitem current ''on_off'' = Inr on"
    and source: "(if py_truthy on then Inr light_state
                  else py_getitem light_state ''dft_on_state'') = Inr src"
    and hue: "py_getitem src ''hue'' = Inr hu"
    and saturation: "py_getitem src ''saturation'' = Inr sa"
    and native: "py_getitem src ''brightness'' = Inr (JInt n)"
    and native_range: "\<bar>n * 255\<bar> < 2 ^ 53"
    and external_range: "\<bar>v * 100\<bar> < 2 ^ 53"
  shows "outbox (snd (hsv_set self (h, s, JInt v) ws)) =
           outbox ws' @
           [hsv_request self h s
              (if 0 \<le> v then v * 100 div 255 else - ((- (v * 100)) div 255))]
       \<and> hsv self w =
           (Inr (Some (hu, sa, if 0 \<le> n then n * 255 div 100 else - ((- (n * 255)) div 100))),
            w''')"
proof -
  have a: "(0 \<le> v * 100) = (0 \<le> v)" "(0 \<le> n * 255) = (0 \<le> n)"
    by (simp_all add: zero_le_mult_iff)
  have on: "is_on self w'' = (Inr (py_truthy on), w''')"
    using bulb second on_off by (rule is_on_bulb)
  have ls: "hsv_light_state (h, s, JInt v) =
      Inr (JObj [(''hue'', h), (''saturation'', s),
                 (''brightness'',
                  JInt (if 0 \<le> v then v * 100 div 255 else - ((- (v * 100)) div 255))),
                 (''color_temp'', JInt 0)])"
    by (simp add: hsv_light_state_def ebind_simps int_of_quotient_pos a)
  have "hsv_set self (h, s, JInt v) ws =
      io_bind (set_light_state self
                 (JObj [(''hue'', h), (''saturation'', s),
                        (''brightness'',
                         JInt (if 0 \<le> v then v * 100 div 255 else - ((- (v * 100)) div 255))),
                        (''color_temp'', JInt 0)]))
        (\<lambda>r. io_return ()) ws'"
    using color_set by (simp add: hsv_set_def ls io_bind_def io_lift_def)
  then have setter: "outbox (snd (hsv_set self (h, s, JInt v) ws)) =
           outbox ws' @
           [hsv_request self h s
              (if 0 \<le> v then v * 100 div 255 else - ((- (v * 100)) div 255))]"
    by (simp only: snd_io_bind_return set_light_state_def query_helper_outbox)
       (simp add: hsv_request_def)
  have getter: "hsv self w =
           (Inr (Some (hu, sa, if 0 \<le> n then n * 255 div 100 else - ((- (n * 255)) div 100))),
            w''')"
    using color first on source hue saturation native
    by (cases "py_truthy on")
       (simp_all add: hsv_def io_defs ebind_simps int_of_quotient_pos a)
  show ?thesis using setter getter by simp
qed


text \<open>
  The ends of the scales and a value that does not come back: the setter sends 255 as 100
  and 0 as 0, the getter returns 100 as 255 and 0 as 0; 254 is sent as 99, which the getter
  returns as 252.
\<close>

theorem brightness_scale_conversion_witness:
  "hsv_set (bulb_at ''192.168.0.20'') (JInt 120, JInt 50, JInt 255)
       (fresh_world [color_bulb_sysinfo, reply_to LIGHTING_SERVICE ''transition_light_state'' []])
     = (Inr (),
        (fresh_world []) \<lparr>outbox := [sysinfo_request (bulb_at ''192.168.0.20''),
           hsv_request (bulb_at ''192.168.0.20'') (JInt 120) (JInt 50) 100]\<rparr>)
   \<and> fst (hsv (bulb_at ''192.168.0.20'')
       (fresh_world [color_bulb_sysinfo, lit_bulb_state 100, lit_bulb_state 100]))
     = Inr (Some (JInt 10, JInt 20, 255))
   \<and> outbox (snd (hsv_set (bulb_at ''192.168.0.20'') (JInt 120, JInt 50, JInt 0)
       (fresh_world [color_bulb_sysinfo, reply_to LIGHTING_SERVICE ''transition_light_state'' []])))
     = [sysinfo_request (bulb_at ''192.168.0.20''),
        hsv_request (bulb_at ''192.168.0.20'') (JInt 120) (JInt 50) 0]
   \<and> fst (hsv (bulb_at ''192.168.0.20'')
       (fresh_world [color_bulb_sysinfo, lit_bulb_state 0, lit_bulb_state 0]))
     = Inr (Some (JInt 10, JInt 20, 0))
   \<and> outbox (snd (hsv_set (bulb_at ''192.168.0.20'') (JInt 120, JInt 50, JInt 254)
       (fresh_world [color_bulb_sysinfo, reply_to LIGHTING_SERVICE ''transition_light_state'' []])))
     = [sysinfo_request (bulb_at ''192.168.0.20''),
        hsv_request (bulb_at ''192.168.0.20'') (JInt 120) (JInt 50) 99]
   \<and> fst (hsv (bulb_at ''192.168.0.20'')
       (fresh_world [color_bulb_sysinfo, lit_bulb_state 99, lit_bulb_state 99]))
     = Inr (Some (JInt 10, JInt 20, 252))"
proof -
  let ?B = "bulb_at ''192.168.0.20''"
  let ?s = "sysinfo_request ?B"
  let ?q = "(''192.168.0.20'', JObj [(LIGHTING_SERVICE, JObj [(''get_light_state'', JObj [])])])"
  let ?ws = "fresh_world [color_bulb_sysinfo, reply_to LIGHTING_SERVICE ''transition_light_state'' []]"
  have bulb: "cls ?B = SmartBulb"
    by (simp add: bulb_at_def)
  have color: "is_color ?B (fresh_world (color_bulb_sysinfo # rs)) =
                 (Inr True, (fresh_world rs) \<lparr>outbox := [?s]\<rparr>)" for rs
    by (simp add: is_color_def sys_info_flag_def sys_info_def get_sysinfo_def query_defs
        io_defs sample_defs bulb_sample_defs ebind_simps AList.delete_eq)
  have lit: "get_light_state ?B ((fresh_world (lit_bulb_state n # rs)) \<lparr>outbox := out\<rparr>) =
               (Inr (JObj [(''on_off'', JInt 1), (''hue'', JInt 10), (''saturation'', JInt 20),
                           (''brightness'', JInt n), (''color_temp'', JInt 0)]),
                (fresh_world rs) \<lparr>outbox := out @ [?q]\<rparr>)" for n rs out
    by (simp add: get_light_state_def query_defs io_defs sample_defs lit_bulb_state_def
        LIGHTING_SERVICE_def ebind_simps AList.delete_eq)
  have full: "hsv_set ?B (JInt 120, JInt 50, JInt 255) ?ws
     = (Inr (), (fresh_world []) \<lparr>outbox := [?s, hsv_request ?B (JInt 120) (JInt 50) 100]\<rparr>)"
    by (simp add: hsv_set_def hsv_light_state_def set_light_state_def is_color_def
        sys_info_flag_def sys_info_def get_sysinfo_def query_defs io_defs sample_defs
        bulb_sample_defs hsv_request_def int_of_quotient_def ebind_simps AList.delete_eq)
  note top = brightness_scale_conversion [OF color color bulb
      lit [where rs = "[lit_bulb_state 100]" and out = "[?s]" and n = 100]
      lit [where rs = "[]" and out = "[?s] @ [?q]" and n = 100],
      where on = "JInt 1" and hu = "JInt 10" and sa = "JInt 20"
        and h = "JInt 120" and s = "JInt 50" and v = 255]
  note bottom = brightness_scale_conversion [OF color color bulb
      lit [where rs = "[lit_bulb_state 0]" and out = "[?s]" and n = 0]
      lit [where rs = "[]" and out = "[?s] @ [?q]" and n = 0],
      where on = "JInt 1" and hu = "JInt 10" and sa = "JInt 20"
        and h = "JInt 120" and s = "JInt 50" and v = 0]
  note lossy = brightness_scale_conversion [OF color color bulb
      lit [where rs = "[lit_bulb_state 99]" and out = "[?s]" and n = 99]
      lit [where rs = "[]" and out = "[?s] @ [?q]" and n = 99],
      where on = "JInt 1" and hu = "JInt 10" and sa = "JInt 20"
        and h = "JInt 120" and s = "JInt 50" and v = 254]
  show ?thesis
    using full top bottom lossy
    by (simp add: fresh_world_def)
qed

section \<open>Validation of caller-supplied values\<close>

lemma dotted_quad_samples: "dotted_quad ''192.168.0.20''" "\<not> dotted_quad ''192.168.0.256''" "\<not> dotted_quad ''bulb.local''"
  "\<not> dotted_quad ''192.168.0''" "\<not> dotted_quad ''192.168.00.1''"
  by (simp_all add: dotted_quad_def octet_ok_def is_digit_def digit_value_def)

text \<open>
  The brightness setter checks nothing but \<^verbatim>\<open>is_dimmable\<close>: on a dimmable bulb the value
  150 goes out to the device and the call returns normally.
\<close>

theorem brightness_set_sends_out_of_range:
  "brightness_set (bulb_at ''192.168.0.20'') (JInt 150)
     (fresh_world [color_bulb_sysinfo, reply_to LIGHTING_SERVICE ''transition_light_state'' []])
   = (Inr (),
      (fresh_world []) \<lparr>outbox := [sysinfo_request (bulb_at ''192.168.0.20''),
         (''192.168.0.20'', JObj [(LIGHTING_SERVICE, JObj [(''transition_light_state'',
             JObj [(''brightness'', JInt 150)])])])]\<rparr>)"
  by (simp add: brightness_set_def set_light_state_def is_dimmable_def sys_info_flag_def
      sys_info_def get_sysinfo_def query_defs io_defs sample_defs color_bulb_sysinfo_def
      LIGHTING_SERVICE_def ebind_simps AList.delete_eq)

text \<open>
  Claim C8, amended. An address that \<^verbatim>\<open>inet_pton\<close> refuses makes each constructor raise
  \<^verbatim>\<open>socket.error\<close>; a constructor touches no transport. The brightness setter validates
  nothing: on a dimmable bulb it sends whatever value it is given in a
  \<^verbatim>\<open>transition_light_state\<close> request, and the only errors it can raise are those of the
  query helper, after the request has gone out.
\<close>

theorem address_validated_brightness_forwarded:
  "(\<not> inet_pton ip \<longrightarrow>
      SmartDevice_init inet_pton ip = Inl SocketError
      \<and> SmartPlug_init inet_pton ip = Inl SocketError
      \<and> SmartBulb_init inet_pton ip = Inl SocketError)
   \<and> (is_dimmable self w = (Inr True, w') \<longrightarrow>
        brightness_set self b w =
          (case set_light_state self (JObj [(''brightness'', b)]) w' of
             (Inl e, w2) \<Rightarrow> (Inl e, w2)
           | (Inr r, w2) \<Rightarrow> (Inr (), w2))
        \<and> outbox (snd (brightness_set self b w)) = outbox w' @ [brightness_request self b])"
proof -
  have "outbox (snd (set_light_state self (JObj [(''brightness'', b)]) w')) =
          outbox w' @ [brightness_request self b]"
    by (simp add: set_light_state_def query_helper_outbox brightness_request_def)
  then show ?thesis
    by (auto simp add: SmartDevice_init_def SmartPlug_init_def SmartBulb_init_def ebind_simps
        brightness_set_def io_bind_def io_return_def split: prod.splits sum.splits)
qed

theorem address_validated_brightness_forwarded_witness:
  "\<not> dotted_quad ''192.168.0.256''
   \<and> SmartBulb_init dotted_quad ''192.168.0.256'' = Inl SocketError
   \<and> SmartBulb_init dotted_quad ''192.168.0.20'' = Inr (bulb_at ''192.168.0.20'')
   \<and> outbox (snd (brightness_set (bulb_at ''192.168.0.20'') (JInt (- 5))
        (fresh_world [color_bulb_sysinfo])))
      = [sysinfo_request (bulb_at ''192.168.0.20''),
         brightness_request (bulb_at ''192.168.0.20'') (JInt (- 5))]"
proof -
  have d: "is_dimmable (bulb_at ''192.168.0.20'') (fresh_world [color_bulb_sysinfo]) =
             (Inr True, (fresh_world []) \<lparr>outbox := [sysinfo_request (bulb_at ''192.168.0.20'')]\<rparr>)"
    by (simp add: is_dimmable_def sys_info_flag_def sys_info_def get_sysinfo_def query_defs
        io_defs sample_defs color_bulb_sysinfo_def ebind_simps AList.delete_eq)
  have ok: "SmartBulb_init dotted_quad ''192.168.0.20'' = Inr (bulb_at ''192.168.0.20'')"
    by (simp add: SmartBulb_init_def SmartDevice_init_def ebind_simps bulb_at_def dotted_quad_samples)
  note t = address_validated_brightness_forwarded [where inet_pton = dotted_quad and ip = "''192.168.0.256''"
                and self = "bulb_at ''192.168.0.20''" and w = "fresh_world [color_bulb_sysinfo]"
                and w' = "(fresh_world []) \<lparr>outbox := [sysinfo_request (bulb_at ''192.168.0.20'')]\<rparr>"
                and b = "JInt (- 5)"]
  have bad: "SmartBulb_init dotted_quad ''192.168.0.256'' = Inl SocketError"
    using t dotted_quad_samples(2) by blast
  have sent: "outbox (snd (brightness_set (bulb_at ''192.168.0.20'') (JInt (- 5))
        (fresh_world [color_bulb_sysinfo])))
      = outbox ((fresh_world []) \<lparr>outbox := [sysinfo_request (bulb_at ''192.168.0.20'')]\<rparr>)
        @ [brightness_request (bulb_at ''192.168.0.20'') (JInt (- 5))]"
    using t d by blast
  show ?thesis
    using bad sent ok dotted_quad_samples(2) by simp
qed

section \<open>What discovery sends\<close>

lemma length_length_prefix: "length (length_prefix n) = 4"
  by (simp add: length_prefix_def)

lemma length_xor_chain: "length (xor_chain key bs) = length bs"
  by (induction bs arbitrary: key) simp_all

text \<open>
  Claim C9, amended. The discovery request is not sent as a frame: \<^verbatim>\<open>discover\<close> drops
  the first four bytes of what \<^verbatim>\<open>protocol.encrypt\<close> returns. With the encoding of the
  spec, what goes to the broadcast address is the obfuscated payload alone, as long as the
  payload itself, and the frame is the length prefix followed by it.
\<close>

theorem discovery_datagram_has_no_length_prefix:
  "fst (discovery_datagram dumps (wire_encode key) port) = xor_chain key (dumps discovery_query)
   \<and> length (fst (discovery_datagram dumps (wire_encode key) port)) = length (dumps discovery_query)
   \<and> wire_encode key (dumps discovery_query) =
       length_prefix (length (dumps discovery_query)) @ fst (discovery_datagram dumps (wire_encode key) port)
   \<and> snd (discovery_datagram dumps (wire_encode key) port) = (''255.255.255.255'', port)"
  by (simp add: discovery_datagram_def wire_encode_def Let_def length_length_prefix length_xor_chain)

text \<open>
  With the initial key 171 and the request text above, the frame has 71 bytes and begins
  with the prefix 0, 0, 0, 67; the datagram has 67 bytes and begins with the payload.
\<close>

theorem discovery_datagram_is_not_wire_encoding:
  "fst (discovery_datagram (\<lambda>q. map of_char discovery_request_text) (wire_encode 171) 9999)
     \<noteq> wire_encode 171 (map of_char discovery_request_text)
   \<and> length (wire_encode 171 (map of_char discovery_request_text)) = 71
   \<and> length (fst (discovery_datagram (\<lambda>q. map of_char discovery_request_text) (wire_encode 171) 9999)) = 67
   \<and> take 4 (wire_encode 171 (map of_char discovery_request_text)) = [0, 0, 0, 67]
   \<and> take 4 (fst (discovery_datagram (\<lambda>q. map of_char discovery_request_text) (wire_encode 171) 9999)) = [208, 242, 151, 250]"
proof -
  have l: "length (fst (discovery_datagram (\<lambda>q. map of_char discovery_request_text) (wire_encode 171) 9999)) = 67"
    by (simp add: discovery_datagram_def wire_encode_def Let_def length_length_prefix length_xor_chain discovery_request_text_def)
  have l2: "length (wire_encode 171 (map of_char discovery_request_text)) = 71"
    by (simp add: wire_encode_def length_length_prefix length_xor_chain discovery_request_text_def)
  have p: "take 4 (wire_encode 171 (map of_char discovery_request_text)) = [0, 0, 0, 67]"
    by (simp add: wire_encode_def length_prefix_def discovery_request_text_def)
  have q: "take 4 (fst (discovery_datagram (\<lambda>q. map of_char discovery_request_text) (wire_encode 171) 9999)) = [208, 242, 151, 250]"
    by (simp add: discovery_datagram_def wire_encode_def Let_def length_length_prefix discovery_request_text_def)
  from l l2 have "fst (discovery_datagram (\<lambda>q. map of_char discovery_request_text) (wire_encode 171) 9999)
     \<noteq> wire_encode 171 (map of_char discovery_request_text)" by auto
  with l l2 p q show ?thesis by simp
qed

section \<open>Classification of discovery replies\<close>

lemma init_ok:
  "inet_pton ip \<Longrightarrow> SmartPlug_init inet_pton ip = Inr (plug_at ip)"
  "inet_pton ip \<Longrightarrow> SmartBulb_init inet_pton ip = Inr (bulb_at ip)"
  by (simp_all add: SmartPlug_init_def SmartBulb_init_def SmartDevice_init_def ebind_simps
      plug_at_def bulb_at_def)



lemmas discover_defs = discover_def loop_body_def classify_def read_type_def discovery_reply_def


section \<open>Malformed discovery replies\<close>

lemma receive_loop_stops:
  assumes "parse data = Inl e"
  shows "receive_loop parse inet_pton st (pre @ (data, ip, port) # rest) =
           receive_loop parse inet_pton st (pre @ [(data, ip, port)])
       \<and> devices (receive_loop parse inet_pton st (pre @ [(data, ip, port)])) =
           devices (receive_loop parse inet_pton st pre)
       \<and> (\<exists>e'. last (logged (receive_loop parse inet_pton st (pre @ [(data, ip, port)]))) =
              Error_exception e')"
proof (induction pre arbitrary: st)
  case Nil
  then show ?case using assms by (simp add: loop_body_def)
next
  case (Cons d pre)
  show ?case
  proof (cases "loop_body parse inet_pton st d")
    case (Pair r st')
    then show ?thesis
      using Cons.IH [of st'] by (cases r) simp_all
  qed
qed

text \<open>
  Claim C2, amended. A datagram that cannot be decrypted and parsed raises inside the loop,
  and the \<^verbatim>\<open>try\<close> statement stands around the loop: the exception is logged and never
  leaves \<^verbatim>\<open>discover\<close>, but the loop is over. The devices returned are those collected
  from the datagrams before it; the datagrams after it are not looked at.
\<close>

theorem malformed_reply_ends_discovery:
  assumes "parse data = Inl e"
  shows "devices (snd (discover dumps encrypt parse inet_pton port0
                     (pre @ (data, ip, port) # rest))) =
           devices (snd (discover dumps encrypt parse inet_pton port0 pre))
       \<and> (\<exists>e'. last (logged (snd (discover dumps encrypt parse inet_pton port0
                     (pre @ (data, ip, port) # rest)))) = Error_exception e')"
  using assms receive_loop_stops [where parse = parse and data = data and e = e and
      inet_pton = inet_pton and pre = pre and ip = ip and port = port and rest = rest]
  by (simp add: discover_def)

text \<open>
  A plug answers after a datagram that does not parse: it is not in the result, although
  the same reply alone is classified.
\<close>

theorem malformed_reply_hides_later_reply:
  "devices (snd (discover (\<lambda>q. map of_char discovery_request_text) (wire_encode 171)
        (\<lambda>d. d) dotted_quad 9999
      [(Inl ValueError, ''192.168.0.30'', 9999),
       (Inr (discovery_reply [(''type'', JStr ''IOT.SMARTPLUGSWITCH'')]), ''192.168.0.10'', 9999)]))
    = []
   \<and> devices (snd (discover (\<lambda>q. map of_char discovery_request_text) (wire_encode 171)
        (\<lambda>d. d) dotted_quad 9999
      [(Inr (discovery_reply [(''type'', JStr ''IOT.SMARTPLUGSWITCH'')]), ''192.168.0.10'', 9999)]))
    = [(''192.168.0.10'', plug_at ''192.168.0.10'')]"
proof -
  have a: "dotted_quad ''192.168.0.10''"
    by (simp_all add: dotted_quad_def octet_ok_def is_digit_def digit_value_def)
  show ?thesis
    by (simp add: discover_defs ebind_simps init_ok a lower_char_def)
qed

theorem malformed_reply_ends_discovery_witness:
  "logged (snd (discover (\<lambda>q. map of_char discovery_request_text) (wire_encode 171)
        (\<lambda>d. d) dotted_quad 9999
      [(Inr (discovery_reply [(''type'', JStr ''IOT.SMARTPLUGSWITCH'')]), ''192.168.0.10'', 9999),
       (Inl ValueError, ''192.168.0.30'', 9999),
       (Inr (discovery_reply [(''mic_type'', JStr ''IOT.SMARTBULB'')]), ''192.168.0.20'', 9999)]))
    = [Debug_sending, Debug_waiting, Error_exception ValueError]
   \<and> devices (snd (discover (\<lambda>q. map of_char discovery_request_text) (wire_encode 171)
        (\<lambda>d. d) dotted_quad 9999
      [(Inr (discovery_reply [(''type'', JStr ''IOT.SMARTPLUGSWITCH'')]), ''192.168.0.10'', 9999),
       (Inl ValueError, ''192.168.0.30'', 9999),
       (Inr (discovery_reply [(''mic_type'', JStr ''IOT.SMARTBULB'')]), ''192.168.0.20'', 9999)]))
    = [(''192.168.0.10'', plug_at ''192.168.0.10'')]"
proof -
  have a: "dotted_quad ''192.168.0.10''"
    by (simp_all add: dotted_quad_def octet_ok_def is_digit_def digit_value_def)
  have pre: "devices (snd (discover (\<lambda>q. map of_char discovery_request_text) (wire_encode 171)
        (\<lambda>d. d) dotted_quad 9999
      [(Inr (discovery_reply [(''type'', JStr ''IOT.SMARTPLUGSWITCH'')]), ''192.168.0.10'', 9999)]))
    = [(''192.168.0.10'', plug_at ''192.168.0.10'')]"
    by (simp add: discover_defs ebind_simps init_ok a lower_char_def)
  have l: "logged (snd (discover (\<lambda>q. map of_char discovery_request_text) (wire_encode 171)
        (\<lambda>d. d) dotted_quad 9999
      [(Inr (discovery_reply [(''type'', JStr ''IOT.SMARTPLUGSWITCH'')]), ''192.168.0.10'', 9999),
       (Inl ValueError, ''192.168.0.30'', 9999),
       (Inr (discovery_reply [(''mic_type'', JStr ''IOT.SMARTBULB'')]), ''192.168.0.20'', 9999)]))
    = [Debug_sending, Debug_waiting, Error_exception ValueError]"
    by (simp add: discover_defs ebind_simps init_ok a lower_char_def)
  show ?thesis
    using malformed_reply_ends_discovery [where parse = "\<lambda>d. d" and data = "Inl ValueError" and e = ValueError
        and pre = "[(Inr (discovery_reply [(''type'', JStr ''IOT.SMARTPLUGSWITCH'')]), ''192.168.0.10'', 9999)]"
        and ip = "''192.168.0.30''" and port = 9999
        and rest = "[(Inr (discovery_reply [(''mic_type'', JStr ''IOT.SMARTBULB'')]), ''192.168.0.20'', 9999)]"
        and dumps = "\<lambda>q. map of_char discovery_request_text" and encrypt = "wire_encode 171" and inet_pton = dotted_quad and ?port0.0 = 9999]
      pre l
    by simp
qed

text \<open>
  A reply that parses but has no \<^verbatim>\<open>system.get_sysinfo\<close> is logged, and then the body goes
  on to classify whatever \<^verbatim>\<open>type\<close> holds: after a plug's reply its address is stored as
  a plug, too; as the first reply it finds \<^verbatim>\<open>type\<close> unassigned, which ends the loop.
\<close>

lemma reply_without_sysinfo:
  "devices (snd (discover dumps encrypt (\<lambda>d. d) dotted_quad 9999
      [(Inr (discovery_reply [(''type'', JStr ''IOT.SMARTPLUGSWITCH'')]), ''192.168.0.10'', 9999),
       (Inr (JObj [(''emeter'', JObj [(''err_code'', JInt (- 1))])]), ''192.168.0.40'', 9999)]))
    = [(''192.168.0.10'', plug_at ''192.168.0.10''), (''192.168.0.40'', plug_at ''192.168.0.40'')]"
  "snd (discover dumps encrypt (\<lambda>d. d) dotted_quad 9999
      [(Inr (JObj [(''emeter'', JObj [(''err_code'', JInt (- 1))])]), ''192.168.0.40'', 9999),
       (Inr (discovery_reply [(''type'', JStr ''IOT.SMARTPLUGSWITCH'')]), ''192.168.0.10'', 9999)])
    = \<lparr>devices = [], type_var = None,
       logged = [Debug_sending, Debug_waiting, Error_no_sysinfo,
                 Error_exception UnboundLocalError]\<rparr>"
proof -
  have a: "dotted_quad ''192.168.0.10''" "dotted_quad ''192.168.0.40''"
    by (simp_all add: dotted_quad_def octet_ok_def is_digit_def digit_value_def)
  show "devices (snd (discover dumps encrypt (\<lambda>d. d) dotted_quad 9999
      [(Inr (discovery_reply [(''type'', JStr ''IOT.SMARTPLUGSWITCH'')]), ''192.168.0.10'', 9999),
       (Inr (JObj [(''emeter'', JObj [(''err_code'', JInt (- 1))])]), ''192.168.0.40'', 9999)]))
    = [(''192.168.0.10'', plug_at ''192.168.0.10''), (''192.168.0.40'', plug_at ''192.168.0.40'')]"
    by (simp add: discover_defs ebind_simps init_ok a lower_char_def)
  show "snd (discover dumps encrypt (\<lambda>d. d) dotted_quad 9999
      [(Inr (JObj [(''emeter'', JObj [(''err_code'', JInt (- 1))])]), ''192.168.0.40'', 9999),
       (Inr (discovery_reply [(''type'', JStr ''IOT.SMARTPLUGSWITCH'')]), ''192.168.0.10'', 9999)])
    = \<lparr>devices = [], type_var = None,
       logged = [Debug_sending, Debug_waiting, Error_no_sysinfo,
                 Error_exception UnboundLocalError]\<rparr>"
    by (simp add: discover_defs ebind_simps)
qed

end
